theory Spec2Isabelle
  imports Main
begin

section \<open>The Open/Closed example: products, specifications and filters\<close>

text \<open>
  The development embeds \<^verbatim>\<open>src/OpenClosedPrinciple/OpenClosed.cpp\<close>.
  The program filters a \<^verbatim>\<open>std::vector<Product *>\<close> either with the hand-written
  methods of \<^verbatim>\<open>ProductFilter\<close> or with \<^verbatim>\<open>BetterFilter::filter\<close> and a
  \<^verbatim>\<open>Specification<Product>\<close> object.
\<close>

subsection \<open>Data model\<close>

text \<open>\<^verbatim>\<open>enum class Color { red, green, blue }\<close> and
  \<^verbatim>\<open>enum class Size { small, medium, large }\<close>.\<close>

datatype Color = red | green | blue

datatype Size = small | medium | large

text \<open>
  \<^verbatim>\<open>struct Product { std::string name; Color color; Size size; }\<close>.
  The field \<^verbatim>\<open>size\<close> is written \<open>size'\<close>, since \<open>size\<close> is a constant of HOL.
\<close>

record Product =
  name :: string
  color :: Color
  size' :: Size

text \<open>
  The items of the program are pointers (\<^verbatim>\<open>Product *\<close>). A pointer is the null
  pointer or an address; the memory that holds the products is a partial map from
  addresses to products. An address outside the map's domain is a dangling pointer.
\<close>

datatype ptr = nullptr | Ptr nat

type_synonym heap = "nat \<Rightarrow> Product option"

text \<open>
  Reading through a null or dangling pointer is undefined behaviour in C++; the model
  makes it the error value \<open>InvalidDereference\<close>, which every caller propagates.
\<close>

datatype error = InvalidDereference

fun deref :: "heap \<Rightarrow> ptr \<Rightarrow> error + Product" where
  "deref h nullptr = Inl InvalidDereference"
| "deref h (Ptr a) = (case h a of None \<Rightarrow> Inl InvalidDereference | Some p \<Rightarrow> Inr p)"

subsection \<open>Specifications\<close>

text \<open>
  \<^verbatim>\<open>Specification<Product>\<close> is an abstract class with the three implementations
  \<^verbatim>\<open>ColorSpecification\<close> (field \<^verbatim>\<open>color\<close>), \<^verbatim>\<open>SizeSpecification\<close> (field
  \<^verbatim>\<open>size\<close>) and \<^verbatim>\<open>AndSpecification\<close> (fields \<^verbatim>\<open>first\<close> and \<^verbatim>\<open>second\<close>,
  references to two other specifications). The datatype has one constructor per class.
  A reference held by an \<^verbatim>\<open>AndSpecification\<close> is modelled by the operand itself: the
  operands are taken to be alive whenever the conjunction is evaluated, and the object
  graph is a finite tree. The subsection on specification objects in memory models the
  references themselves, and with them an operand that is destroyed before the
  conjunction is evaluated.
\<close>

datatype Specification =
    ColorSpecification Color
  | SizeSpecification Size
  | AndSpecification Specification Specification

text \<open>
  \<^verbatim>\<open>virtual bool is_satisfied(T *item)\<close> is a non-const method on a non-const
  pointer, so a call may in principle write to the specification object and to the
  pointed-to product. The model therefore passes the state explicitly: a call takes the
  receiver, the item and the heap, and returns the boolean together with the receiver
  and the heap as they are after the call.

  \<^item> \<^verbatim>\<open>ColorSpecification::is_satisfied\<close>: \<^verbatim>\<open>return item->color == color;\<close>
  \<^item> \<^verbatim>\<open>SizeSpecification::is_satisfied\<close>: \<^verbatim>\<open>return item->size == size;\<close>
  \<^item> \<^verbatim>\<open>AndSpecification::is_satisfied\<close>:
    \<^verbatim>\<open>return first.is_satisfied(item) && second.is_satisfied(item);\<close>
    where \<^verbatim>\<open>&&\<close> evaluates \<^verbatim>\<open>second\<close> only when \<^verbatim>\<open>first\<close> returned true, in the
    state that the call on \<^verbatim>\<open>first\<close> left.
\<close>

fun is_satisfied :: "Specification \<Rightarrow> ptr \<Rightarrow> heap \<Rightarrow> error + (bool \<times> Specification \<times> heap)" where
  "is_satisfied (ColorSpecification c) item h =
     (case deref h item of
        Inl e \<Rightarrow> Inl e
      | Inr p \<Rightarrow> Inr (color p = c, ColorSpecification c, h))"
| "is_satisfied (SizeSpecification s) item h =
     (case deref h item of
        Inl e \<Rightarrow> Inl e
      | Inr p \<Rightarrow> Inr (size' p = s, SizeSpecification s, h))"
| "is_satisfied (AndSpecification first second) item h =
     (case is_satisfied first item h of
        Inl e \<Rightarrow> Inl e
      | Inr (b1, first1, h1) \<Rightarrow>
          if b1 then
            (case is_satisfied second item h1 of
               Inl e \<Rightarrow> Inl e
             | Inr (b2, second1, h2) \<Rightarrow> Inr (b2, AndSpecification first1 second1, h2))
          else Inr (False, AndSpecification first1 second, h1))"

subsection \<open>Specification objects in memory\<close>

text \<open>
  The fields \<^verbatim>\<open>Specification<T> &first\<close> and \<^verbatim>\<open>Specification<T> &second\<close> of an
  \<^verbatim>\<open>AndSpecification\<close> are references: the conjunction does not own its operands. To
  follow a reference after its referent has been destroyed, the specification objects
  are placed in a store, a partial map from addresses to objects. An object is one of
  the three classes with its fields; the fields of an \<^verbatim>\<open>AndSpecification\<close> are the
  addresses of its operands. An address outside the store's domain holds no live object.
\<close>

datatype object = ColorObject Color | SizeObject Size | AndObject nat nat

type_synonym objects = "nat \<Rightarrow> object option"

text \<open>
  \<open>is_satisfied_at\<close> is the virtual call \<^verbatim>\<open>is_satisfied(item)\<close> on the object at the
  address \<open>this\<close>: the same three method bodies as above, with \<^verbatim>\<open>first\<close> and
  \<^verbatim>\<open>second\<close> followed through the store, and \<^verbatim>\<open>second\<close> followed only when
  \<^verbatim>\<open>first\<close> returned true. A call on an address that holds no live object is undefined
  behaviour in C++ and the error \<open>InvalidDereference\<close> here. The methods assign nothing,
  so only the boolean is returned. The first argument bounds the depth of nested calls
  (a store may hold a cycle of references); \<open>None\<close> says that the bound was reached.
\<close>

fun is_satisfied_at :: "nat \<Rightarrow> objects \<Rightarrow> nat \<Rightarrow> ptr \<Rightarrow> heap \<Rightarrow> (error + bool) option" where
  "is_satisfied_at 0 objs this item h = None"
| "is_satisfied_at (Suc n) objs this item h =
     (case objs this of
        None \<Rightarrow> Some (Inl InvalidDereference)
      | Some (ColorObject c) \<Rightarrow>
          Some (case deref h item of Inl e \<Rightarrow> Inl e | Inr p \<Rightarrow> Inr (color p = c))
      | Some (SizeObject s) \<Rightarrow>
          Some (case deref h item of Inl e \<Rightarrow> Inl e | Inr p \<Rightarrow> Inr (size' p = s))
      | Some (AndObject first second) \<Rightarrow>
          (case is_satisfied_at n objs first item h of
             None \<Rightarrow> None
           | Some (Inl e) \<Rightarrow> Some (Inl e)
           | Some (Inr b1) \<Rightarrow>
               if b1 then is_satisfied_at n objs second item h else Some (Inr False)))"

text \<open>
  \<open>represents objs a spec\<close> says that the objects reachable from the address \<open>a\<close>
  are alive and form the tree \<open>spec\<close>.
\<close>

fun represents :: "objects \<Rightarrow> nat \<Rightarrow> Specification \<Rightarrow> bool" where
  "represents objs a (ColorSpecification c) = (objs a = Some (ColorObject c))"
| "represents objs a (SizeSpecification s) = (objs a = Some (SizeObject s))"
| "represents objs a (AndSpecification P Q) =
     (case objs a of
        Some (AndObject first second) \<Rightarrow>
          represents objs first P \<and> represents objs second Q
      | _ \<Rightarrow> False)"






subsection \<open>Filters\<close>

text \<open>
  \<^verbatim>\<open>BetterFilter::filter(std::vector<Product *> items, Specification<Product> &spec)\<close>:
  \<^verbatim>\<open>
    std::vector<Product *> result;
    for (auto &item : items)
        if (spec.is_satisfied(item))
            result.push_back(item);
    return result;
  \<close>
  The vector \<^verbatim>\<open>items\<close> is passed by value, so the loop runs over the callee's own copy
  of the pointers. The loop is a recursion over that copy with \<^verbatim>\<open>result\<close> as the
  accumulator; \<^verbatim>\<open>push_back\<close> appends at the end. The specification and the heap are
  threaded through the calls of \<^verbatim>\<open>is_satisfied\<close> and returned with the result.
\<close>

fun filter_loop ::
  "ptr list \<Rightarrow> Specification \<Rightarrow> heap \<Rightarrow> ptr list \<Rightarrow> error + (ptr list \<times> Specification \<times> heap)" where
  "filter_loop [] spec h result = Inr (result, spec, h)"
| "filter_loop (item # rest) spec h result =
     (case is_satisfied spec item h of
        Inl e \<Rightarrow> Inl e
      | Inr (b, spec1, h1) \<Rightarrow>
          filter_loop rest spec1 h1 (if b then result @ [item] else result))"

definition BetterFilter_filter ::
  "ptr list \<Rightarrow> Specification \<Rightarrow> heap \<Rightarrow> error + (ptr list \<times> Specification \<times> heap)" where
  "BetterFilter_filter items spec h = filter_loop items spec h []"

text \<open>
  The three methods of \<^verbatim>\<open>ProductFilter\<close> have the same loop with the test written
  inline: \<^verbatim>\<open>i->color == color\<close>, \<^verbatim>\<open>i->size == size\<close> and
  \<^verbatim>\<open>i->size == size && i->color == color\<close>. They return the result and the heap.
\<close>

fun by_color_loop :: "ptr list \<Rightarrow> Color \<Rightarrow> heap \<Rightarrow> ptr list \<Rightarrow> error + (ptr list \<times> heap)" where
  "by_color_loop [] c h result = Inr (result, h)"
| "by_color_loop (i # rest) c h result =
     (case deref h i of
        Inl e \<Rightarrow> Inl e
      | Inr p \<Rightarrow> by_color_loop rest c h (if color p = c then result @ [i] else result))"

definition by_color :: "ptr list \<Rightarrow> Color \<Rightarrow> heap \<Rightarrow> error + (ptr list \<times> heap)" where
  "by_color items c h = by_color_loop items c h []"

fun by_size_loop :: "ptr list \<Rightarrow> Size \<Rightarrow> heap \<Rightarrow> ptr list \<Rightarrow> error + (ptr list \<times> heap)" where
  "by_size_loop [] s h result = Inr (result, h)"
| "by_size_loop (i # rest) s h result =
     (case deref h i of
        Inl e \<Rightarrow> Inl e
      | Inr p \<Rightarrow> by_size_loop rest s h (if size' p = s then result @ [i] else result))"

definition by_size :: "ptr list \<Rightarrow> Size \<Rightarrow> heap \<Rightarrow> error + (ptr list \<times> heap)" where
  "by_size items s h = by_size_loop items s h []"

fun by_size_and_color_loop ::
  "ptr list \<Rightarrow> Color \<Rightarrow> Size \<Rightarrow> heap \<Rightarrow> ptr list \<Rightarrow> error + (ptr list \<times> heap)" where
  "by_size_and_color_loop [] c s h result = Inr (result, h)"
| "by_size_and_color_loop (i # rest) c s h result =
     (case deref h i of
        Inl e \<Rightarrow> Inl e
      | Inr p \<Rightarrow>
          by_size_and_color_loop rest c s h
            (if size' p = s \<and> color p = c then result @ [i] else result))"

definition by_size_and_color ::
  "ptr list \<Rightarrow> Color \<Rightarrow> Size \<Rightarrow> heap \<Rightarrow> error + (ptr list \<times> heap)" where
  "by_size_and_color items c s h = by_size_and_color_loop items c s h []"

subsection \<open>The objects of \<^verbatim>\<open>main\<close>\<close>

text \<open>
  \<^verbatim>\<open>main\<close> creates the products \<^verbatim>\<open>apple\<close>, \<^verbatim>\<open>tree\<close> and \<^verbatim>\<open>house\<close> and the vector
  \<^verbatim>\<open>items{&apple, &tree, &house}\<close>. The three objects get the addresses 0, 1 and 2.
\<close>

definition apple :: Product where
  "apple = \<lparr>name = ''Apple'', color = green, size' = small\<rparr>"

definition tree :: Product where
  "tree = \<lparr>name = ''Tree'', color = green, size' = large\<rparr>"

definition house :: Product where
  "house = \<lparr>name = ''House'', color = blue, size' = large\<rparr>"

definition main_heap :: heap where
  "main_heap = [0 \<mapsto> apple, 1 \<mapsto> tree, 2 \<mapsto> house]"

definition main_items :: "ptr list" where
  "main_items = [Ptr 0, Ptr 1, Ptr 2]"






subsection \<open>Reading results\<close>

text \<open>
  \<open>outcome\<close> keeps what a call returns to its caller (the boolean of
  \<open>is_satisfied\<close>, the vector of \<open>BetterFilter_filter\<close>) and drops the state after
  the call; \<open>returns\<close> says that a call of \<open>is_satisfied\<close> returned the boolean \<open>b\<close>.
\<close>

definition outcome :: "error + ('a \<times> Specification \<times> heap) \<Rightarrow> error + 'a" where
  "outcome r = (case r of Inl e \<Rightarrow> Inl e | Inr (v, spec1, h1) \<Rightarrow> Inr v)"

definition returns :: "Specification \<Rightarrow> ptr \<Rightarrow> heap \<Rightarrow> bool \<Rightarrow> bool" where
  "returns spec item h b = (outcome (is_satisfied spec item h) = Inr b)"

text \<open>
  \<open>without_spec\<close> keeps the vector and the heap of a result of
  \<open>BetterFilter_filter\<close>, the two components that a method of \<^verbatim>\<open>ProductFilter\<close>
  returns. \<open>valid\<close> says that a pointer can be read in a heap: it is neither null
  nor dangling.
\<close>

definition without_spec :: "error + ('a \<times> Specification \<times> heap) \<Rightarrow> error + ('a \<times> heap)" where
  "without_spec r = (case r of Inl e \<Rightarrow> Inl e | Inr (v, spec1, h1) \<Rightarrow> Inr (v, h1))"

definition valid :: "heap \<Rightarrow> ptr \<Rightarrow> bool" where
  "valid h item = (case deref h item of Inl e \<Rightarrow> False | Inr p \<Rightarrow> True)"

section \<open>Properties\<close>

subsection \<open>Evaluating a specification\<close>

lemma valid_deref: "valid h item \<Longrightarrow> \<exists>p. deref h item = Inr p"
  by (cases "deref h item") (simp_all add: valid_def)

text \<open>
  On a readable pointer every specification returns a boolean and leaves the receiver
  and the heap as they were; on a null or dangling pointer every specification fails,
  since the first leaf it reaches reads the item.
\<close>

lemma is_satisfied_valid:
  "deref h item = Inr p \<Longrightarrow> \<exists>b. is_satisfied spec item h = Inr (b, spec, h)"
  by (induction spec) auto

lemma is_satisfied_invalid:
  "deref h item = Inl e \<Longrightarrow> is_satisfied spec item h = Inl e"
  by (induction spec) auto

lemma returns_valid: "returns spec item h b \<Longrightarrow> valid h item"
  by (cases "deref h item")
     (simp_all add: returns_def outcome_def valid_def is_satisfied_invalid)

text \<open>
  \<^bold>\<open>C1.\<close> For every readable item and all specifications \<open>P\<close> and \<open>Q\<close>, the
  conjunction \<open>AndSpecification P Q\<close> returns the logical AND of what \<open>P\<close> and \<open>Q\<close>
  return on that item.
\<close>

theorem AndSpecification_is_conjunction:
  assumes "valid h item"
  shows "\<exists>b1 b2. returns P item h b1 \<and> returns Q item h b2 \<and>
           returns (AndSpecification P Q) item h (b1 \<and> b2)"
proof -
  obtain p where p: "deref h item = Inr p"
    using assms valid_deref by blast
  obtain b1 where b1: "is_satisfied P item h = Inr (b1, P, h)"
    using is_satisfied_valid [OF p] by blast
  obtain b2 where b2: "is_satisfied Q item h = Inr (b2, Q, h)"
    using is_satisfied_valid [OF p] by blast
  have "returns P item h b1" "returns Q item h b2"
    using b1 b2 by (simp_all add: returns_def outcome_def)
  moreover have "returns (AndSpecification P Q) item h (b1 \<and> b2)"
    using b1 b2 by (simp add: returns_def outcome_def)
  ultimately show ?thesis by blast
qed

theorem AndSpecification_is_conjunction_witness:
  "valid main_heap (Ptr 1) \<and>
   (\<exists>b1 b2. returns (ColorSpecification green) (Ptr 1) main_heap b1 \<and>
      returns (SizeSpecification small) (Ptr 1) main_heap b2 \<and>
      returns (AndSpecification (ColorSpecification green) (SizeSpecification small))
        (Ptr 1) main_heap (b1 \<and> b2))"
proof -
  have v: "valid main_heap (Ptr 1)"
    by (simp add: valid_def main_heap_def)
  show ?thesis
    using v AndSpecification_is_conjunction [OF v] by simp
qed

subsection \<open>The loop of \<^verbatim>\<open>BetterFilter::filter\<close>\<close>

text \<open>
  On readable items the loop appends to the accumulator, in input order, the items on
  which the specification returns true, and hands back the specification and the heap
  it was given. The accumulator is generalised, since every step may extend it.
\<close>

lemma filter_loop_valid:
  "\<forall>item\<in>set items. valid h item \<Longrightarrow>
   filter_loop items spec h result =
     Inr (result @ filter (\<lambda>item. returns spec item h True) items, spec, h)"
proof (induction items arbitrary: result)
  case Nil
  then show ?case by simp
next
  case (Cons item rest)
  from Cons.prems have "valid h item" by simp
  then obtain p where p: "deref h item = Inr p"
    using valid_deref by blast
  then obtain b where b: "is_satisfied spec item h = Inr (b, spec, h)"
    using is_satisfied_valid by blast
  from Cons.prems have rest: "\<forall>i\<in>set rest. valid h i" by simp
  show ?case
    using b Cons.IH [OF rest] by (simp add: returns_def outcome_def)
qed

text \<open>
  Two specifications that return the same on every item of a heap give the same
  filtering result, also when the input holds a pointer that cannot be read: both loops
  then fail at the same item.
\<close>

lemma filter_loop_cong:
  assumes "\<And>item. outcome (is_satisfied A item h) = outcome (is_satisfied B item h)"
  shows "outcome (filter_loop items A h result) = outcome (filter_loop items B h result)"
proof (induction items arbitrary: result)
  case Nil
  then show ?case by (simp add: outcome_def)
next
  case (Cons item rest)
  show ?case
  proof (cases "deref h item")
    case (Inl e)
    then show ?thesis by (simp add: is_satisfied_invalid outcome_def)
  next
    case (Inr p)
    obtain a where a: "is_satisfied A item h = Inr (a, A, h)"
      using is_satisfied_valid [OF Inr] by blast
    obtain b where b: "is_satisfied B item h = Inr (b, B, h)"
      using is_satisfied_valid [OF Inr] by blast
    from assms [of item] a b have "a = b" by (simp add: outcome_def)
    then show ?thesis using a b Cons.IH by simp
  qed
qed

text \<open>
  \<^bold>\<open>C2.\<close> For every input sequence of readable items and every specification,
  \<open>BetterFilter_filter\<close> returns exactly the items on which the specification returns
  true, in the order in which they stand in the input: the result is the library's
  \<open>filter\<close> of the input, which keeps the matching elements and their relative order.
\<close>

theorem filter_returns_matching_subsequence:
  assumes "\<forall>item\<in>set items. valid h item"
  shows "outcome (BetterFilter_filter items spec h) =
           Inr (filter (\<lambda>item. returns spec item h True) items)"
  using filter_loop_valid [OF assms, of spec "[]"]
  by (simp add: BetterFilter_filter_def outcome_def)

theorem filter_returns_matching_subsequence_witness:
  "valid main_heap (Ptr 2) \<and> valid main_heap (Ptr 0) \<and> valid main_heap (Ptr 1)
   \<and> outcome (BetterFilter_filter [Ptr 2, Ptr 0, Ptr 1] (ColorSpecification green) main_heap) =
       Inr [Ptr 0, Ptr 1]"
proof -
  have v: "\<forall>item\<in>set [Ptr 2, Ptr 0, Ptr 1]. valid main_heap item"
    by (simp add: valid_def main_heap_def)
  have "filter (\<lambda>item. returns (ColorSpecification green) item main_heap True)
          [Ptr 2, Ptr 0, Ptr 1] = [Ptr 0, Ptr 1]"
    by (simp add: returns_def outcome_def main_heap_def apple_def tree_def house_def)
  then show ?thesis
    using v filter_returns_matching_subsequence [OF v, of "ColorSpecification green"]
    by simp
qed

text \<open>
  \<^bold>\<open>C3.\<close> The scenario of \<^verbatim>\<open>main\<close>: on the items Apple (green, small), Tree
  (green, large) and House (blue, large), in this order, filtering by colour green
  yields Apple and Tree, filtering by green and large yields Tree, and filtering by
  blue and large yields House. Every call returns its specification and the heap as
  they were.
\<close>

theorem main_example_filters:
  "map (deref main_heap) main_items = [Inr apple, Inr tree, Inr house]
   \<and> BetterFilter_filter main_items (ColorSpecification green) main_heap =
       Inr ([Ptr 0, Ptr 1], ColorSpecification green, main_heap)
   \<and> BetterFilter_filter main_items
       (AndSpecification (ColorSpecification green) (SizeSpecification large)) main_heap =
       Inr ([Ptr 1], AndSpecification (ColorSpecification green) (SizeSpecification large),
            main_heap)
   \<and> BetterFilter_filter main_items
       (AndSpecification (ColorSpecification blue) (SizeSpecification large)) main_heap =
       Inr ([Ptr 2], AndSpecification (ColorSpecification blue) (SizeSpecification large),
            main_heap)"
  by (simp add: BetterFilter_filter_def main_items_def main_heap_def
      apple_def tree_def house_def)

subsection \<open>Algebra of conjunctions\<close>

text \<open>
  Both nestings of three specifications evaluate the leaves in the order \<open>P\<close>, \<open>Q\<close>,
  \<open>R\<close> and stop at the first that returns false or fails.
\<close>

lemma and_assoc_outcome:
  "outcome (is_satisfied (AndSpecification (AndSpecification P Q) R) item h) =
   outcome (is_satisfied (AndSpecification P (AndSpecification Q R)) item h)"
  by (simp add: outcome_def split: sum.splits prod.splits)

text \<open>
  \<^bold>\<open>C4.\<close> Conjunction is associative: for all specifications \<open>P\<close>, \<open>Q\<close>, \<open>R\<close>,
  every item and every heap, \<open>(P AND Q) AND R\<close> returns what \<open>P AND (Q AND R)\<close>
  returns, and filtering any input sequence with either nesting returns the same
  vector. This holds for every input, also one that cannot be read: both sides then
  fail alike.
\<close>

theorem AndSpecification_associative:
  "outcome (is_satisfied (AndSpecification (AndSpecification P Q) R) item h) =
   outcome (is_satisfied (AndSpecification P (AndSpecification Q R)) item h)
   \<and> outcome (BetterFilter_filter items (AndSpecification (AndSpecification P Q) R) h) =
     outcome (BetterFilter_filter items (AndSpecification P (AndSpecification Q R)) h)"
  using and_assoc_outcome filter_loop_cong [OF and_assoc_outcome]
  by (simp add: BetterFilter_filter_def)

text \<open>
  \<^bold>\<open>C5.\<close> The degenerate cases of \<open>BetterFilter_filter\<close>: the empty input yields
  the empty vector for every specification; a specification that returns true on every
  item of the input yields the input itself, in the same order; a specification that
  returns false on every item of the input yields the empty vector.
\<close>

theorem filter_degenerate_cases:
  "outcome (BetterFilter_filter [] spec h) = Inr []
   \<and> ((\<forall>item\<in>set items. returns spec item h True) \<longrightarrow>
        outcome (BetterFilter_filter items spec h) = Inr items)
   \<and> ((\<forall>item\<in>set items. returns spec item h False) \<longrightarrow>
        outcome (BetterFilter_filter items spec h) = Inr [])"
proof (intro conjI impI)
  show "outcome (BetterFilter_filter [] spec h) = Inr []"
    by (simp add: BetterFilter_filter_def outcome_def)
next
  assume t: "\<forall>item\<in>set items. returns spec item h True"
  then have v: "\<forall>item\<in>set items. valid h item"
    using returns_valid by blast
  have "filter (\<lambda>item. returns spec item h True) items = items"
    using t by (simp add: filter_id_conv)
  then show "outcome (BetterFilter_filter items spec h) = Inr items"
    using filter_loop_valid [OF v, of spec "[]"]
    by (simp add: BetterFilter_filter_def outcome_def)
next
  assume f: "\<forall>item\<in>set items. returns spec item h False"
  then have v: "\<forall>item\<in>set items. valid h item"
    using returns_valid by blast
  have "filter (\<lambda>item. returns spec item h True) items = []"
    using f by (auto simp: filter_empty_conv returns_def)
  then show "outcome (BetterFilter_filter items spec h) = Inr []"
    using filter_loop_valid [OF v, of spec "[]"]
    by (simp add: BetterFilter_filter_def outcome_def)
qed

theorem filter_degenerate_cases_witness:
  "outcome (BetterFilter_filter [] (ColorSpecification red) main_heap) = Inr []
   \<and> returns (ColorSpecification green) (Ptr 0) main_heap True
   \<and> returns (ColorSpecification green) (Ptr 1) main_heap True
   \<and> outcome (BetterFilter_filter [Ptr 0, Ptr 1] (ColorSpecification green) main_heap) =
       Inr [Ptr 0, Ptr 1]
   \<and> returns (ColorSpecification red) (Ptr 0) main_heap False
   \<and> returns (ColorSpecification red) (Ptr 1) main_heap False
   \<and> returns (ColorSpecification red) (Ptr 2) main_heap False
   \<and> outcome (BetterFilter_filter main_items (ColorSpecification red) main_heap) = Inr []"
proof -
  have t: "\<forall>item\<in>set [Ptr 0, Ptr 1]. returns (ColorSpecification green) item main_heap True"
    by (simp add: returns_def outcome_def main_heap_def apple_def tree_def)
  have f: "\<forall>item\<in>set main_items. returns (ColorSpecification red) item main_heap False"
    by (simp add: returns_def outcome_def main_items_def main_heap_def
        apple_def tree_def house_def)
  show ?thesis
    using t f filter_degenerate_cases [of "ColorSpecification green" main_heap "[Ptr 0, Ptr 1]"]
      filter_degenerate_cases [of "ColorSpecification red" main_heap main_items]
    by (simp add: main_items_def)
qed

subsection \<open>Conjunctions in memory\<close>

text \<open>
  While every object reachable from an address is alive, the call through the store
  returns what the call on the tree returns, for every bound on the depth of calls that
  exceeds the size of the tree.
\<close>

lemma is_satisfied_at_represents:
  "represents objs a spec \<Longrightarrow> size spec < n \<Longrightarrow>
   is_satisfied_at n objs a item h = Some (outcome (is_satisfied spec item h))"
proof (induction spec arbitrary: a n)
  case (ColorSpecification c)
  then obtain m where "n = Suc m" by (cases n) auto
  with ColorSpecification show ?case
    by (simp add: outcome_def split: sum.splits)
next
  case (SizeSpecification s)
  then obtain m where "n = Suc m" by (cases n) auto
  with SizeSpecification show ?case
    by (simp add: outcome_def split: sum.splits)
next
  case (AndSpecification P Q)
  from AndSpecification.prems(2) obtain m where n: "n = Suc m"
    by (cases n) auto
  from AndSpecification.prems(1) obtain first second where
    obj: "objs a = Some (AndObject first second)"
    and rp: "represents objs first P" and rq: "represents objs second Q"
    by (auto split: option.splits object.splits)
  from AndSpecification.prems(2) n have sp: "size P < m" and sq: "size Q < m"
    by simp_all
  have p: "is_satisfied_at m objs first item h = Some (outcome (is_satisfied P item h))"
    using AndSpecification.IH(1) [OF rp sp] .
  have q: "is_satisfied_at m objs second item h = Some (outcome (is_satisfied Q item h))"
    using AndSpecification.IH(2) [OF rq sq] .
  show ?case
  proof (cases "deref h item")
    case (Inl e)
    then show ?thesis
      using n obj p by (simp add: is_satisfied_invalid outcome_def)
  next
    case (Inr x)
    obtain b1 where b1: "is_satisfied P item h = Inr (b1, P, h)"
      using is_satisfied_valid [OF Inr] by blast
    obtain b2 where b2: "is_satisfied Q item h = Inr (b2, Q, h)"
      using is_satisfied_valid [OF Inr] by blast
    show ?thesis
      using n obj p q b1 b2 by (simp add: outcome_def)
  qed
qed


subsection \<open>Frame properties\<close>

text \<open>
  \<^bold>\<open>C7.\<close> \<open>BetterFilter_filter\<close> changes neither its input nor the specification:
  for every input sequence of readable items and every specification, the call returns
  a vector together with the very specification and the very heap it was given. The
  heap holds the products the items point to, and the specification holds its
  construction parameters; the caller's vector is copied at the call.
\<close>

theorem filter_leaves_state_unchanged:
  assumes "\<forall>item\<in>set items. valid h item"
  shows "\<exists>result. BetterFilter_filter items spec h = Inr (result, spec, h)"
  using filter_loop_valid [OF assms, of spec "[]"]
  by (simp add: BetterFilter_filter_def)

theorem filter_leaves_state_unchanged_witness:
  "valid main_heap (Ptr 0) \<and> valid main_heap (Ptr 1) \<and> valid main_heap (Ptr 2)
   \<and> (\<exists>result. BetterFilter_filter main_items (SizeSpecification large) main_heap =
         Inr (result, SizeSpecification large, main_heap))"
proof -
  have v: "\<forall>item\<in>set main_items. valid main_heap item"
    by (simp add: main_items_def valid_def main_heap_def)
  show ?thesis
    using v filter_leaves_state_unchanged [OF v, of "SizeSpecification large"]
    by (simp add: main_items_def)
qed

text \<open>
  \<^bold>\<open>C8.\<close> Evaluation is a pure function of the item and the parameters of the
  specification: when the item points to the product \<open>p\<close>, the call returns a boolean
  \<open>b\<close> and leaves the specification and the heap unchanged, and every other call of
  the same specification on an item that points to the same product \<open>p\<close>, in whatever
  heap, returns the same \<open>b\<close> and leaves that state unchanged too. Since no call
  changes the state, calls made in between, in any order, do not change what a later
  call returns.
\<close>

theorem is_satisfied_pure:
  assumes "deref h item = Inr p"
  shows "\<exists>b. is_satisfied spec item h = Inr (b, spec, h)
           \<and> (\<forall>h2 item2. deref h2 item2 = Inr p \<longrightarrow>
                 is_satisfied spec item2 h2 = Inr (b, spec, h2))"
using assms proof (induction spec)
  case (ColorSpecification c)
  then show ?case by simp
next
  case (SizeSpecification s)
  then show ?case by simp
next
  case (AndSpecification first second)
  from AndSpecification.IH(1) [OF AndSpecification.prems] obtain b1 where
    b1: "is_satisfied first item h = Inr (b1, first, h)"
      "\<forall>h2 item2. deref h2 item2 = Inr p \<longrightarrow>
         is_satisfied first item2 h2 = Inr (b1, first, h2)"
    by blast
  from AndSpecification.IH(2) [OF AndSpecification.prems] obtain b2 where
    b2: "is_satisfied second item h = Inr (b2, second, h)"
      "\<forall>h2 item2. deref h2 item2 = Inr p \<longrightarrow>
         is_satisfied second item2 h2 = Inr (b2, second, h2)"
    by blast
  have "is_satisfied (AndSpecification first second) item h =
          Inr (b1 \<and> b2, AndSpecification first second, h)"
    using b1(1) b2(1) by simp
  moreover have "\<forall>h2 item2. deref h2 item2 = Inr p \<longrightarrow>
      is_satisfied (AndSpecification first second) item2 h2 =
        Inr (b1 \<and> b2, AndSpecification first second, h2)"
    using b1(2) b2(2) by simp
  ultimately show ?case by blast
qed

theorem is_satisfied_pure_witness:
  "deref main_heap (Ptr 1) = Inr tree
   \<and> deref [5 \<mapsto> tree] (Ptr 5) = Inr tree
   \<and> (\<exists>b. is_satisfied (AndSpecification (ColorSpecification green) (SizeSpecification large))
             (Ptr 1) main_heap =
           Inr (b, AndSpecification (ColorSpecification green) (SizeSpecification large),
                main_heap)
         \<and> is_satisfied (AndSpecification (ColorSpecification green) (SizeSpecification large))
             (Ptr 5) [5 \<mapsto> tree] =
           Inr (b, AndSpecification (ColorSpecification green) (SizeSpecification large),
                [5 \<mapsto> tree]))"
proof -
  have d1: "deref main_heap (Ptr 1) = Inr tree"
    by (simp add: main_heap_def)
  have d2: "deref [5 \<mapsto> tree] (Ptr 5) = Inr tree"
    by simp
  from is_satisfied_pure
    [OF d1, of "AndSpecification (ColorSpecification green) (SizeSpecification large)"]
  show ?thesis using d1 d2 by blast
qed

text \<open>
  \<^bold>\<open>C9.\<close> Evaluation is total and raises no error on a well-formed item: for every
  specification, leaf or conjunction, and every item that can be read, \<open>is_satisfied\<close>
  returns a boolean; the error branch is not taken. (The function is defined by
  structural recursion on the specification, so it returns on every input.)
\<close>

theorem is_satisfied_total:
  assumes "valid h item"
  shows "\<exists>b spec1 h1. is_satisfied spec item h = Inr (b, spec1, h1)"
proof -
  obtain p where "deref h item = Inr p"
    using assms valid_deref by blast
  then show ?thesis
    using is_satisfied_valid by blast
qed

theorem is_satisfied_total_witness:
  "valid main_heap (Ptr 2)
   \<and> (\<exists>b spec1 h1.
        is_satisfied (AndSpecification (SizeSpecification large) (ColorSpecification red))
          (Ptr 2) main_heap = Inr (b, spec1, h1))"
proof -
  have v: "valid main_heap (Ptr 2)"
    by (simp add: valid_def main_heap_def)
  from is_satisfied_total
    [OF v, of "AndSpecification (SizeSpecification large) (ColorSpecification red)"]
  show ?thesis using v by blast
qed

subsection \<open>The hand-written filters\<close>

text \<open>
  Each loop of \<^verbatim>\<open>ProductFilter\<close> is the loop of \<^verbatim>\<open>BetterFilter::filter\<close> with the
  matching specification, for every accumulator.
\<close>

lemma by_color_loop_filter:
  "by_color_loop items c h result =
     without_spec (filter_loop items (ColorSpecification c) h result)"
  by (induction items arbitrary: result) (auto simp: without_spec_def split: sum.splits)

lemma by_size_loop_filter:
  "by_size_loop items s h result =
     without_spec (filter_loop items (SizeSpecification s) h result)"
  by (induction items arbitrary: result) (auto simp: without_spec_def split: sum.splits)

lemma by_size_and_color_loop_filter:
  "by_size_and_color_loop items c s h result =
     without_spec
       (filter_loop items (AndSpecification (ColorSpecification c) (SizeSpecification s))
          h result)"
  by (induction items arbitrary: result) (auto simp: without_spec_def split: sum.splits)

text \<open>
  \<^bold>\<open>C10.\<close> The methods of \<^verbatim>\<open>ProductFilter\<close> agree with the specification-based
  filter: for every input sequence, colour \<open>c\<close> and size \<open>s\<close>, \<open>by_color\<close> returns
  what \<open>BetterFilter_filter\<close> returns with \<open>ColorSpecification c\<close>, \<open>by_size\<close> what it
  returns with \<open>SizeSpecification s\<close>, and \<open>by_size_and_color\<close> what it returns with
  the conjunction of the two. This includes the inputs that cannot be read, on which
  both sides fail.
\<close>

theorem ProductFilter_agrees_with_BetterFilter:
  "by_color items c h = without_spec (BetterFilter_filter items (ColorSpecification c) h)
   \<and> by_size items s h = without_spec (BetterFilter_filter items (SizeSpecification s) h)
   \<and> by_size_and_color items c s h =
       without_spec (BetterFilter_filter items
         (AndSpecification (ColorSpecification c) (SizeSpecification s)) h)"
  by (simp add: by_color_def by_size_def by_size_and_color_def BetterFilter_filter_def
      by_color_loop_filter by_size_loop_filter by_size_and_color_loop_filter)

end
